theory Spec2Isabelle
  imports Main "HOL-Library.Word"
begin

section \<open>Data model of user\_sgi.c\<close>

type_synonym u32 = "32 word"

text \<open>A \<^verbatim>\<open>struct device\<close> is identified by its address.\<close>

type_synonym device = nat

text \<open>\<^verbatim>\<open>struct user_sgi_data { u32 ipi_number; };\<close>\<close>

record user_sgi_data =
  ipi_number :: u32

text \<open>
  The function pointers the kernel's SGI table can hold: this driver's \<^verbatim>\<open>handle_ipi\<close>,
  or the handler of some other owner of the interrupt number.
\<close>

datatype ipi_handler = Handle_ipi | Other_handler

text \<open>A device-tree property: its value as a list of 32-bit cells.\<close>

datatype of_property = Prop_cells "u32 list"

text \<open>
  \<^verbatim>\<open>struct platform_device\<close>: the embedded \<^verbatim>\<open>struct device\<close> and its device-tree
  node \<^verbatim>\<open>dev.of_node\<close>, a map from property names to properties.
\<close>

record platform_device =
  dev :: device
  of_node :: "string \<Rightarrow> of_property option"

text \<open>
  What the calls into the kernel and the writes to shared variables do, in program order.
  The list is ghost state: it records the order of the effects, nothing reads it.
\<close>

datatype event =
    Store_ipi_count u32
  | Load_ipi_dev "device option"
  | Store_ipi_dev "device option"
  | Sysfs_notify device string
  | Set_ipi_handler u32 int
  | Clear_ipi_handler u32
  | Device_create_file device string int
  | Device_remove_file device string

text \<open>
  The state the driver works on: its two static variables (\<^verbatim>\<open>ipi_dev\<close>, \<^verbatim>\<open>ipi_count\<close>),
  the kernel's table of SGI handlers, the driver data pointer of each device (the
  device-managed allocation of \<^verbatim>\<open>allocate_device_data\<close>), the sysfs attribute files that
  exist, the kernel log and the order of effects.
\<close>

record kstate =
  ipi_dev :: "device option"
  ipi_count :: u32
  ipi_handlers :: "u32 \<Rightarrow> ipi_handler option"
  drvdata :: "device \<Rightarrow> user_sgi_data option"
  sysfs_files :: "(device \<times> string) set"
  klog :: "string list"
  events :: "event list"

text \<open>
  What the fallible kernel services answer during one call of probe: whether
  \<^verbatim>\<open>devm_kzalloc\<close> finds memory, and what \<^verbatim>\<open>device_create_file\<close> returns.
\<close>

record kernel_outcomes =
  devm_kzalloc_ok :: bool
  device_create_file_ret :: int

text \<open>A kernel oops: the C code dereferences a null pointer.\<close>

datatype fault = Null_pointer_dereference

text \<open>Error numbers of the kernel headers.\<close>

definition ENOMEM :: int where "ENOMEM = 12"
definition EBUSY :: int where "EBUSY = 16"
definition EINVAL :: int where "EINVAL = 22"
definition ENODATA :: int where "ENODATA = 61"

section \<open>Static variables\<close>

text \<open>
  \<^verbatim>\<open>static struct device *ipi_dev = NULL; static u32 ipi_count = 0;\<close>
  Loading the module initialises the two variables, whatever the rest of the kernel holds.
\<close>

definition static_init :: "kstate \<Rightarrow> kstate" where
  "static_init st = st\<lparr>ipi_dev := None, ipi_count := 0\<rparr>"

text \<open>A kernel with no SGI handler, no driver data and no attribute file, after the module is loaded.\<close>

definition boot_state :: kstate where
  "boot_state = static_init
     \<lparr>ipi_dev = None, ipi_count = 0, ipi_handlers = (\<lambda>_. None), drvdata = (\<lambda>_. None),
      sysfs_files = {}, klog = [], events = []\<rparr>"

section \<open>Kernel primitives the driver calls\<close>

text \<open>
  These functions are not part of the driver. Each is modelled by its contract, as the
  driver relies on it.
\<close>

text \<open>\<^verbatim>\<open>printk\<close> appends a line to the kernel log (kept without its newline).\<close>

definition printk :: "string \<Rightarrow> kstate \<Rightarrow> kstate" where
  "printk msg st = st\<lparr>klog := klog st @ [msg]\<rparr>"

text \<open>\<^verbatim>\<open>smp_store_release(&ipi_count, v)\<close>\<close>

definition smp_store_release_ipi_count :: "u32 \<Rightarrow> kstate \<Rightarrow> kstate" where
  "smp_store_release_ipi_count v st =
     st\<lparr>ipi_count := v, events := events st @ [Store_ipi_count v]\<rparr>"

text \<open>\<^verbatim>\<open>smp_load_acquire(&ipi_dev)\<close>\<close>

definition smp_load_acquire_ipi_dev :: "kstate \<Rightarrow> device option \<times> kstate" where
  "smp_load_acquire_ipi_dev st =
     (ipi_dev st, st\<lparr>events := events st @ [Load_ipi_dev (ipi_dev st)]\<rparr>)"

text \<open>\<^verbatim>\<open>smp_store_release(&ipi_dev, d)\<close>\<close>

definition smp_store_release_ipi_dev :: "device option \<Rightarrow> kstate \<Rightarrow> kstate" where
  "smp_store_release_ipi_dev d st =
     st\<lparr>ipi_dev := d, events := events st @ [Store_ipi_dev d]\<rparr>"

text \<open>\<^verbatim>\<open>sysfs_notify(&dev->kobj, NULL, name)\<close> wakes the pollers of the attribute.\<close>

definition sysfs_notify :: "device \<Rightarrow> string \<Rightarrow> kstate \<Rightarrow> kstate" where
  "sysfs_notify d name st = st\<lparr>events := events st @ [Sysfs_notify d name]\<rparr>"

text \<open>
  Modelled from the spec: the dispatch primitive \<^verbatim>\<open>set_ipi_handler\<close> of the kernel
  (\<open>register(sourceId, handler) -> success | Busy\<close>). It refuses an interrupt number that
  already has a handler, with a non-zero result, and stores the handler otherwise.
\<close>

definition set_ipi_handler :: "u32 \<Rightarrow> ipi_handler \<Rightarrow> kstate \<Rightarrow> int \<times> kstate" where
  "set_ipi_handler ipinr h st =
     (if ipi_handlers st ipinr \<noteq> None
      then (- 1, st\<lparr>events := events st @ [Set_ipi_handler ipinr (- 1)]\<rparr>)
      else (0, st\<lparr>ipi_handlers := (ipi_handlers st)(ipinr := Some h),
                   events := events st @ [Set_ipi_handler ipinr 0]\<rparr>))"

text \<open>
  Modelled from the spec: the dispatch primitive \<^verbatim>\<open>clear_ipi_handler\<close> of the kernel
  (\<open>unregister(sourceId) -> void\<close>, infallible). It empties the slot of the interrupt number.
\<close>

definition clear_ipi_handler :: "u32 \<Rightarrow> kstate \<Rightarrow> kstate" where
  "clear_ipi_handler ipinr st =
     st\<lparr>ipi_handlers := (ipi_handlers st)(ipinr := None),
        events := events st @ [Clear_ipi_handler ipinr]\<rparr>"

text \<open>
  \<^verbatim>\<open>device_create_file\<close>: the result is the kernel's answer; the file exists afterwards
  exactly when the answer is 0.
\<close>

definition device_create_file ::
  "kernel_outcomes \<Rightarrow> device \<Rightarrow> string \<Rightarrow> kstate \<Rightarrow> int \<times> kstate" where
  "device_create_file k d name st =
     (let r = device_create_file_ret k;
          st' = st\<lparr>events := events st @ [Device_create_file d name r]\<rparr>
      in if r = 0 then (0, st'\<lparr>sysfs_files := insert (d, name) (sysfs_files st')\<rparr>)
         else (r, st'))"

definition device_remove_file :: "device \<Rightarrow> string \<Rightarrow> kstate \<Rightarrow> kstate" where
  "device_remove_file d name st =
     st\<lparr>sysfs_files := sysfs_files st - {(d, name)},
        events := events st @ [Device_remove_file d name]\<rparr>"

definition platform_get_drvdata :: "platform_device \<Rightarrow> kstate \<Rightarrow> user_sgi_data option" where
  "platform_get_drvdata pdev st = drvdata st (dev pdev)"

definition platform_set_drvdata :: "platform_device \<Rightarrow> user_sgi_data \<Rightarrow> kstate \<Rightarrow> kstate" where
  "platform_set_drvdata pdev data st = st\<lparr>drvdata := (drvdata st)(dev pdev := Some data)\<rparr>"

text \<open>
  \<^verbatim>\<open>of_property_read_u32(node, name, &out)\<close>: \<open>-EINVAL\<close> when the node has no such
  property, \<open>-ENODATA\<close> when the property has no value, and otherwise 0 with the first
  cell written to \<open>out\<close>. On failure \<open>out\<close> is left as it was.
\<close>

definition of_property_read_u32 ::
  "(string \<Rightarrow> of_property option) \<Rightarrow> string \<Rightarrow> u32 \<Rightarrow> int \<times> u32" where
  "of_property_read_u32 node name out =
     (case node name of
        None \<Rightarrow> (- EINVAL, out)
      | Some (Prop_cells []) \<Rightarrow> (- ENODATA, out)
      | Some (Prop_cells (v # _)) \<Rightarrow> (0, v))"

section \<open>The count attribute\<close>

text \<open>Decimal digits of a natural number, most significant first, as \<^verbatim>\<open>printf\<close> writes them.\<close>

fun dec_digits :: "nat \<Rightarrow> string" where
  "dec_digits n =
     (if n < 10 then [''0123456789'' ! n]
      else dec_digits (n div 10) @ [''0123456789'' ! (n mod 10)])"

declare dec_digits.simps [simp del]

text \<open>The conversion \<^verbatim>\<open>%d\<close>: a signed decimal number, with a minus sign when negative.\<close>

definition format_d :: "int \<Rightarrow> string" where
  "format_d i = (if i < 0 then CHR ''-'' # dec_digits (nat (- i)) else dec_digits (nat i))"

text \<open>
  \<^verbatim>\<open>snprintf(buf, n, "%d", x)\<close>, where \<open>x\<close> is a 32-bit argument: \<^verbatim>\<open>%d\<close> reads the
  argument as a signed \<^verbatim>\<open>int\<close>. At most \<open>n - 1\<close> characters are stored in the buffer
  (a terminating zero follows); the result is the length of the whole formatted text.
\<close>

definition snprintf_d :: "nat \<Rightarrow> u32 \<Rightarrow> string \<times> int" where
  "snprintf_d n x =
     (let s = format_d (sint x) in (take (n - 1) s, int (length s)))"

text \<open>
  \<^verbatim>\<open>count_show\<close>: the buffer's text and the returned length. \<^verbatim>\<open>PAGE_SIZE\<close> comes from
  the architecture's headers and is a parameter here.
\<close>

definition count_show :: "nat \<Rightarrow> kstate \<Rightarrow> string \<times> int" where
  "count_show PAGE_SIZE st = snprintf_d PAGE_SIZE (ipi_count st)"

section \<open>The interrupt handler\<close>

definition handle_ipi :: "kstate \<Rightarrow> kstate" where
  "handle_ipi st =
     (let st1 = smp_store_release_ipi_count (ipi_count st + 1) st;
          (d, st2) = smp_load_acquire_ipi_dev st1
      in case d of
           None \<Rightarrow> st2
         | Some dv \<Rightarrow> sysfs_notify dv ''count'' st2)"

section \<open>The device lifecycle\<close>

text \<open>
  \<^verbatim>\<open>devm_kzalloc\<close> gives zeroed memory or fails; the pointer is stored as the driver data
  of the device.
\<close>

definition allocate_device_data ::
  "kernel_outcomes \<Rightarrow> platform_device \<Rightarrow> kstate \<Rightarrow> int \<times> kstate" where
  "allocate_device_data k pdev st =
     (if \<not> devm_kzalloc_ok k then (- ENOMEM, st)
      else (0, platform_set_drvdata pdev \<lparr>ipi_number = 0\<rparr> st))"

text \<open>The result of the read, and the data with the number the read wrote into it.\<close>

definition get_ipi_number :: "platform_device \<Rightarrow> user_sgi_data \<Rightarrow> int \<times> user_sgi_data" where
  "get_ipi_number pdev data =
     (let (r, v) = of_property_read_u32 (of_node pdev) ''ipi_number'' (ipi_number data)
      in (r, data\<lparr>ipi_number := v\<rparr>))"

definition release_after_ipi ::
  "platform_device \<Rightarrow> int \<Rightarrow> kstate \<Rightarrow> fault + (int \<times> kstate)" where
  "release_after_ipi pdev result st =
     (let st1 = smp_store_release_ipi_dev None st
      in case platform_get_drvdata pdev st1 of
           None \<Rightarrow> Inl Null_pointer_dereference
         | Some data \<Rightarrow> Inr (result, clear_ipi_handler (ipi_number data) st1))"

definition release_after_attribute_count ::
  "platform_device \<Rightarrow> int \<Rightarrow> kstate \<Rightarrow> fault + (int \<times> kstate)" where
  "release_after_attribute_count pdev result st =
     release_after_ipi pdev result (device_remove_file (dev pdev) ''count'' st)"

text \<open>
  \<^verbatim>\<open>data\<close> points to the driver data of the device, so the number that
  \<^verbatim>\<open>get_ipi_number\<close> writes through it is written to the driver data.
\<close>

definition user_sgi_probe ::
  "kernel_outcomes \<Rightarrow> platform_device \<Rightarrow> kstate \<Rightarrow> fault + (int \<times> kstate)" where
  "user_sgi_probe k pdev st0 =
     (let st = printk ''probing user sgi'' st0;
          (allocate_result, st1) = allocate_device_data k pdev st
      in if allocate_result \<noteq> 0 then Inr (allocate_result, st1)
         else case platform_get_drvdata pdev st1 of
           None \<Rightarrow> Inl Null_pointer_dereference
         | Some data0 \<Rightarrow>
             let (get_ipi_number_result, data) = get_ipi_number pdev data0;
                 st2 = platform_set_drvdata pdev data st1
             in if get_ipi_number_result < 0 then Inr (get_ipi_number_result, st2)
                else
                  let st3 = smp_store_release_ipi_dev (Some (dev pdev)) st2;
                      (set_result, st4) = set_ipi_handler (ipi_number data) Handle_ipi st3
                  in if set_result \<noteq> 0 then Inr (- EBUSY, st4)
                     else
                       let (create_device_result, st5) =
                             device_create_file k (dev pdev) ''count'' st4
                       in if create_device_result \<noteq> 0
                          then release_after_ipi pdev create_device_result st5
                          else Inr (0, printk (''user sgi activated for IPI number '' @
                                                 format_d (sint (ipi_number data))) st5))"

definition user_sgi_remove :: "platform_device \<Rightarrow> kstate \<Rightarrow> fault + (int \<times> kstate)" where
  "user_sgi_remove pdev st =
     release_after_attribute_count pdev 0 (printk ''removing user sgi'' st)"

text \<open>
  No function of the driver frees the driver data: \<^verbatim>\<open>devm_kzalloc\<close> ties the allocation
  to the device, and the driver leaves the release to the kernel.
\<close>

section \<open>Handler invocations on several cores\<close>

text \<open>
  \<^verbatim>\<open>smp_store_release(&ipi_count, ipi_count + 1)\<close> is two accesses to the shared variable:
  a plain load of \<^verbatim>\<open>ipi_count\<close> into a register, and a store of the register plus one.
  A core that runs \<^verbatim>\<open>handle_ipi\<close> is at one of these points: before the load, before the
  store (holding the value it loaded), before the load of \<^verbatim>\<open>ipi_dev\<close>, before the test of
  the loaded pointer, or back from the handler.
\<close>

datatype handler_pc =
    At_load_count
  | At_store_count u32
  | At_load_dev
  | At_test_dev "device option"
  | Returned

fun core_step :: "handler_pc \<Rightarrow> kstate \<Rightarrow> handler_pc \<times> kstate" where
  "core_step At_load_count st = (At_store_count (ipi_count st), st)"
| "core_step (At_store_count r) st = (At_load_dev, smp_store_release_ipi_count (r + 1) st)"
| "core_step At_load_dev st =
     (let (d, st') = smp_load_acquire_ipi_dev st in (At_test_dev d, st'))"
| "core_step (At_test_dev None) st = (Returned, st)"
| "core_step (At_test_dev (Some dv)) st = (Returned, sysfs_notify dv ''count'' st)"
| "core_step Returned st = (Returned, st)"

text \<open>
  An interleaving is a schedule: the list of the cores that take the next step, in order.
  A core that is not there takes no step.
\<close>

fun run_schedule :: "nat list \<Rightarrow> handler_pc list \<times> kstate \<Rightarrow> handler_pc list \<times> kstate" where
  "run_schedule [] c = c"
| "run_schedule (i # sched) (pcs, st) =
     (if i < length pcs
      then (let (pc', st') = core_step (pcs ! i) st in run_schedule sched (pcs[i := pc'], st'))
      else run_schedule sched (pcs, st))"

section \<open>Concrete devices and kernel answers\<close>

text \<open>Two platform devices whose device-tree nodes both say \<^verbatim>\<open>ipi_number = <8>\<close>.\<close>

definition sgi8_first :: platform_device where
  "sgi8_first = \<lparr>dev = 1, of_node = (\<lambda>_. None)(''ipi_number'' := Some (Prop_cells [8]))\<rparr>"

definition sgi8_second :: platform_device where
  "sgi8_second = \<lparr>dev = 2, of_node = (\<lambda>_. None)(''ipi_number'' := Some (Prop_cells [8]))\<rparr>"

definition outcomes_ok :: kernel_outcomes where
  "outcomes_ok = \<lparr>devm_kzalloc_ok = True, device_create_file_ret = 0\<rparr>"

definition outcomes_no_memory :: kernel_outcomes where
  "outcomes_no_memory = \<lparr>devm_kzalloc_ok = False, device_create_file_ret = 0\<rparr>"

definition outcomes_no_attribute :: kernel_outcomes where
  "outcomes_no_attribute = \<lparr>devm_kzalloc_ok = True, device_create_file_ret = - 12\<rparr>"

text \<open>The state after the first device has been probed on a freshly booted kernel.\<close>

definition active_state :: kstate where
  "active_state =
     \<lparr>ipi_dev = Some 1, ipi_count = 0,
      ipi_handlers = (\<lambda>_. None)(8 := Some Handle_ipi),
      drvdata = (\<lambda>_. None)(1 := Some \<lparr>ipi_number = 8\<rparr>),
      sysfs_files = {(1, ''count'')},
      klog = [''probing user sgi'', ''user sgi activated for IPI number 8''],
      events = [Store_ipi_dev (Some 1), Set_ipi_handler 8 0, Device_create_file 1 ''count'' 0]\<rparr>"

text \<open>
  The state in the middle of the removal of the first device: \<^verbatim>\<open>release_after_ipi\<close> has
  stored null in \<^verbatim>\<open>ipi_dev\<close> (line 106) and has not yet cleared the handler (line 107).
\<close>

definition teardown_state :: kstate where
  "teardown_state =
     smp_store_release_ipi_dev None
       (device_remove_file (dev sgi8_first) ''count'' (printk ''removing user sgi'' active_state))"

text \<open>The state after the first device has been removed.\<close>

definition removed_state :: kstate where
  "removed_state =
     \<lparr>ipi_dev = None, ipi_count = 0,
      ipi_handlers = (\<lambda>_. None),
      drvdata = (\<lambda>_. None)(1 := Some \<lparr>ipi_number = 8\<rparr>),
      sysfs_files = {},
      klog = [''probing user sgi'', ''user sgi activated for IPI number 8'',
              ''removing user sgi''],
      events = [Store_ipi_dev (Some 1), Set_ipi_handler 8 0, Device_create_file 1 ''count'' 0,
                Device_remove_file 1 ''count'', Store_ipi_dev None, Clear_ipi_handler 8]\<rparr>"

section \<open>Auxiliary facts\<close>

lemmas prim_defs = printk_def smp_store_release_ipi_count_def smp_load_acquire_ipi_dev_def
  smp_store_release_ipi_dev_def sysfs_notify_def set_ipi_handler_def clear_ipi_handler_def
  device_create_file_def device_remove_file_def platform_get_drvdata_def platform_set_drvdata_def
  of_property_read_u32_def

lemmas drv_defs = allocate_device_data_def get_ipi_number_def release_after_ipi_def
  release_after_attribute_count_def user_sgi_probe_def user_sgi_remove_def

lemmas scenario_defs = sgi8_first_def sgi8_second_def outcomes_ok_def outcomes_no_memory_def
  outcomes_no_attribute_def boot_state_def static_init_def

lemma format_d_8: "format_d 8 = ''8''"
  by (simp add: format_d_def dec_digits.simps)

text \<open>The concrete active state is what a successful probe of the first device produces.\<close>

lemma probe_boot_active:
  "user_sgi_probe outcomes_ok sgi8_first boot_state = Inr (0, active_state)"
  by (simp add: drv_defs prim_defs scenario_defs active_state_def Let_def format_d_8)

lemma active_drvdata:
  "platform_get_drvdata sgi8_first active_state = Some \<lparr>ipi_number = 8\<rparr>"
  by (simp add: platform_get_drvdata_def sgi8_first_def active_state_def)

text \<open>The removal of the first device passes through the teardown state and ends in the removed state.\<close>

lemma remove_through_teardown:
  "user_sgi_remove sgi8_first active_state = Inr (0, clear_ipi_handler 8 teardown_state)
   \<and> clear_ipi_handler 8 teardown_state = removed_state"
  by (simp add: drv_defs prim_defs teardown_state_def removed_state_def active_state_def
      sgi8_first_def Let_def)

lemma static_init_count: "ipi_count (static_init st) = 0"
  by (simp add: static_init_def)

lemma handle_ipi_count: "ipi_count (handle_ipi st) = ipi_count st + 1"
  by (simp add: handle_ipi_def prim_defs Let_def split: option.split)

text \<open>A core that runs alone through its four steps does what \<open>handle_ipi\<close> does.\<close>

lemma run_schedule_one_core:
  "run_schedule [0, 0, 0, 0] ([At_load_count], st) = ([Returned], handle_ipi st)"
  by (simp add: handle_ipi_def prim_defs Let_def split: option.split)

text \<open>Invocations that run one after the other are all counted.\<close>

lemma handle_ipi_sequential:
  "ipi_count ((handle_ipi ^^ n) st) = ipi_count st + of_nat n"
proof (induction n)
  case 0
  show ?case by simp
next
  case (Suc n)
  then show ?case by (simp add: handle_ipi_count)
qed

lemma handle_ipi_sequential_unat:
  "unat (ipi_count ((handle_ipi ^^ n) st)) = (unat (ipi_count st) + n) mod 2 ^ 32"
  by (simp add: handle_ipi_sequential unat_word_ariths unat_of_nat mod_simps)

text \<open>Below \<open>2 ^ 31\<close> the signed reading of a 32-bit word is its unsigned value.\<close>

lemma sint_below_msb:
  fixes x :: u32
  assumes "x < 0x80000000"
  shows "sint x = int (unat x)"
proof -
  from assms have "uint x < 2 ^ 31"
    by (simp add: word_less_def)
  moreover have "- (2 ^ 31) \<le> uint x"
  proof -
    have "- (2 ^ 31) \<le> (0::int)" by simp
    also have "0 \<le> uint x" by simp
    finally show ?thesis .
  qed
  ultimately have "signed_take_bit 31 (uint x) = uint x"
    by (rule signed_take_bit_int_eq_self [rotated])
  then have "sint x = uint x"
    by (simp add: sint_uint)
  then show ?thesis by simp
qed

text \<open>Where the counter is below \<open>2 ^ 31\<close>, the attribute shows its unsigned decimal value.\<close>

lemma count_show_below_msb:
  assumes "ipi_count st < 0x80000000"
  shows "count_show p st =
     (take (p - 1) (dec_digits (unat (ipi_count st))),
      int (length (dec_digits (unat (ipi_count st)))))"
  using assms
  by (simp add: count_show_def snprintf_d_def format_d_def sint_below_msb Let_def)

lemma dec_digits_length: "n < 10 ^ k \<Longrightarrow> 0 < k \<Longrightarrow> length (dec_digits n) \<le> k"
proof (induction n arbitrary: k rule: dec_digits.induct)
  case (1 n)
  show ?case
  proof (cases "n < 10")
    case True
    with 1 show ?thesis by (simp add: dec_digits.simps)
  next
    case False
    obtain j where j: "k = Suc j" using 1(3) by (cases k) auto
    from False 1(2) j have "0 < j" by (cases j) auto
    moreover from 1(2) j have "n div 10 < 10 ^ j"
      by (simp add: less_mult_imp_div_less mult.commute)
    ultimately have "length (dec_digits (n div 10)) \<le> j"
      using 1(1) [OF False] by simp
    with False j show ?thesis by (simp add: dec_digits.simps)
  qed
qed

text \<open>The formatted text is bounded: at most ten digits and a sign.\<close>

lemma count_show_length: "snd (count_show p st) \<le> 11"
proof -
  let ?i = "sint (ipi_count st)"
  have lo: "- (2 ^ 31) \<le> ?i" using sint_ge [of "ipi_count st"] by simp
  have hi: "?i < 2 ^ 31" using sint_lt [of "ipi_count st"] by simp
  have "length (format_d ?i) \<le> 11"
  proof (cases "?i < 0")
    case True
    with lo have "nat (- ?i) < 10 ^ 10" by simp
    then have "length (dec_digits (nat (- ?i))) \<le> 10" by (rule dec_digits_length) simp
    with True show ?thesis by (simp add: format_d_def)
  next
    case False
    with hi have "nat ?i < 10 ^ 10" by simp
    then have "length (dec_digits (nat ?i)) \<le> 10" by (rule dec_digits_length) simp
    with False show ?thesis by (simp add: format_d_def)
  qed
  then show ?thesis by (simp add: count_show_def snprintf_d_def Let_def)
qed

section \<open>Probe: failure and rollback\<close>

text \<open>
  C1. Claimed: whenever probe fails, no handler of the driver stays registered for the
  interrupt number, \<open>ipi_dev\<close> is null and no attribute exists; in particular the failure of
  \<open>set_ipi_handler\<close> clears \<open>ipi_dev\<close>. The code returns \<open>-EBUSY\<close> at once in that case
  and leaves the pointer it has just stored. Two inputs show it. On a freshly booted kernel
  where another owner holds SGI 8, the probe of the first device fails with \<open>-EBUSY\<close> and
  \<open>ipi_dev\<close> points to the device. And when the first device is active on SGI 8 and a
  second device asks for the same number, its probe fails with \<open>-EBUSY\<close>, and afterwards
  \<open>ipi_dev\<close> points to the second device, which has no attribute file, while the handler
  of the first device is still registered.
\<close>

theorem probe_busy_leaves_ipi_dev:
  "(\<exists>st'. user_sgi_probe outcomes_ok sgi8_first
            (boot_state\<lparr>ipi_handlers := (\<lambda>_. None)(8 := Some Other_handler)\<rparr>)
          = Inr (- EBUSY, st')
     \<and> ipi_dev st' = Some (dev sgi8_first)
     \<and> ipi_dev st' \<noteq> None)
   \<and> (\<exists>st'. user_sgi_probe outcomes_ok sgi8_second active_state = Inr (- EBUSY, st')
     \<and> ipi_dev st' = Some (dev sgi8_second)
     \<and> ipi_dev st' \<noteq> None
     \<and> ipi_handlers st' 8 = Some Handle_ipi
     \<and> (dev sgi8_second, ''count'') \<notin> sysfs_files st')"
  by (simp add: drv_defs prim_defs Let_def scenario_defs active_state_def)

text \<open>
  C6. When every earlier step of probe succeeds (memory is found, the device tree gives
  the number \<open>n\<close>, no handler owns \<open>n\<close>) and the creation of the attribute fails with the
  non-zero result \<open>e\<close>, probe returns \<open>e\<close>, and before it returns it stores null in
  \<open>ipi_dev\<close> and clears the handler of \<open>n\<close>: afterwards \<open>ipi_dev\<close> is null and no
  handler is registered for \<open>n\<close>.
\<close>

theorem probe_attribute_failure_rolls_back:
  assumes "devm_kzalloc_ok k"
    and "of_node pdev ''ipi_number'' = Some (Prop_cells (n # ns))"
    and "ipi_handlers st n = None"
    and "device_create_file_ret k \<noteq> 0"
  shows "\<exists>st'. user_sgi_probe k pdev st = Inr (device_create_file_ret k, st')
     \<and> ipi_dev st' = None
     \<and> ipi_handlers st' n = None
     \<and> sysfs_files st' = sysfs_files st
     \<and> events st' = events st @
         [Store_ipi_dev (Some (dev pdev)), Set_ipi_handler n 0,
          Device_create_file (dev pdev) ''count'' (device_create_file_ret k),
          Store_ipi_dev None, Clear_ipi_handler n]"
  using assms
  by (simp add: drv_defs prim_defs Let_def)

theorem probe_attribute_failure_rolls_back_witness:
  "devm_kzalloc_ok outcomes_no_attribute
   \<and> of_node sgi8_first ''ipi_number'' = Some (Prop_cells [8])
   \<and> ipi_handlers boot_state 8 = None
   \<and> device_create_file_ret outcomes_no_attribute \<noteq> 0
   \<and> (\<exists>st'. user_sgi_probe outcomes_no_attribute sgi8_first boot_state = Inr (- 12, st')
        \<and> ipi_dev st' = None
        \<and> ipi_handlers st' 8 = None
        \<and> sysfs_files st' = {}
        \<and> events st' =
            [Store_ipi_dev (Some 1), Set_ipi_handler 8 0, Device_create_file 1 ''count'' (- 12),
             Store_ipi_dev None, Clear_ipi_handler 8])"
proof -
  have h1: "devm_kzalloc_ok outcomes_no_attribute"
    by (simp add: outcomes_no_attribute_def)
  have h2: "of_node sgi8_first ''ipi_number'' = Some (Prop_cells [8])"
    by (simp add: sgi8_first_def)
  have h3: "ipi_handlers boot_state 8 = None"
    by (simp add: boot_state_def static_init_def)
  have h4: "device_create_file_ret outcomes_no_attribute \<noteq> 0"
    by (simp add: outcomes_no_attribute_def)
  from probe_attribute_failure_rolls_back [OF h1 h2 h3 h4] h1 h2 h3 h4 show ?thesis
    by (auto simp: outcomes_no_attribute_def sgi8_first_def boot_state_def static_init_def)
qed

text \<open>
  C10. Probe has one more way to fail: when \<open>devm_kzalloc\<close> finds no memory, probe returns
  \<open>-ENOMEM\<close> at once. Nothing but the kernel log has changed: \<open>ipi_dev\<close> is what it was
  (null before any probe), no handler has been registered and no attribute created.
\<close>

theorem probe_out_of_memory:
  assumes "\<not> devm_kzalloc_ok k"
  shows "user_sgi_probe k pdev st =
     Inr (- ENOMEM, st\<lparr>klog := klog st @ [''probing user sgi'']\<rparr>)"
  using assms
  by (simp add: drv_defs prim_defs ENOMEM_def Let_def)

theorem probe_out_of_memory_witness:
  "\<not> devm_kzalloc_ok outcomes_no_memory
   \<and> user_sgi_probe outcomes_no_memory sgi8_first boot_state =
       Inr (- 12, boot_state\<lparr>klog := [''probing user sgi'']\<rparr>)
   \<and> ipi_dev (boot_state\<lparr>klog := [''probing user sgi'']\<rparr>) = None"
proof -
  have h: "\<not> devm_kzalloc_ok outcomes_no_memory"
    by (simp add: outcomes_no_memory_def)
  from probe_out_of_memory [OF h, of sgi8_first boot_state] h show ?thesis
    by (simp add: ENOMEM_def boot_state_def static_init_def)
qed

section \<open>Remove\<close>

text \<open>
  C4, as claimed: remove destroys the attribute, clears \<open>ipi_dev\<close>, unregisters the handler
  and then releases the per-instance state. The last step is not in remove. After the
  removal of the active first device the driver data of the device is still set, and the
  effects of remove are the three that precede it in the claim.
\<close>

theorem remove_keeps_driver_data:
  "user_sgi_remove sgi8_first active_state = Inr (0, removed_state)
   \<and> platform_get_drvdata sgi8_first removed_state = Some \<lparr>ipi_number = 8\<rparr>
   \<and> platform_get_drvdata sgi8_first removed_state \<noteq> None
   \<and> events removed_state =
       events active_state @
         [Device_remove_file 1 ''count'', Store_ipi_dev None, Clear_ipi_handler 8]"
  by (simp add: drv_defs prim_defs removed_state_def active_state_def sgi8_first_def Let_def)

text \<open>
  C4, amended. Remove of a device whose driver data is set tears down in exactly this
  order: it removes the attribute file \<open>count\<close>, then stores null in \<open>ipi_dev\<close>, then
  clears the handler of the device's interrupt number, and returns 0. These are all its
  effects but for the log line: the file is gone, \<open>ipi_dev\<close> is null, the handler slot is
  empty, and the driver data is what it was. Remove does not release the per-instance state.
\<close>

theorem remove_teardown_steps:
  assumes "platform_get_drvdata pdev st = Some data"
  shows "user_sgi_remove pdev st =
     Inr (0, st\<lparr>ipi_dev := None,
               ipi_handlers := (ipi_handlers st)(ipi_number data := None),
               sysfs_files := sysfs_files st - {(dev pdev, ''count'')},
               klog := klog st @ [''removing user sgi''],
               events := events st @
                 [Device_remove_file (dev pdev) ''count'', Store_ipi_dev None,
                  Clear_ipi_handler (ipi_number data)]\<rparr>)"
  using assms
  by (simp add: drv_defs prim_defs Let_def)

theorem remove_teardown_steps_witness:
  "platform_get_drvdata sgi8_first active_state = Some \<lparr>ipi_number = 8\<rparr>
   \<and> user_sgi_remove sgi8_first active_state =
       Inr (0, active_state\<lparr>ipi_dev := None,
                 ipi_handlers := (ipi_handlers active_state)(8 := None),
                 sysfs_files := sysfs_files active_state - {(1, ''count'')},
                 klog := klog active_state @ [''removing user sgi''],
                 events := events active_state @
                   [Device_remove_file 1 ''count'', Store_ipi_dev None, Clear_ipi_handler 8]\<rparr>)"
proof -
  have h: "platform_get_drvdata sgi8_first active_state = Some \<lparr>ipi_number = 8\<rparr>"
    by (rule active_drvdata)
  from remove_teardown_steps [OF h] h show ?thesis
    by (simp add: sgi8_first_def)
qed

text \<open>
  C8. Remove of an active device (one whose driver data is set, as a successful probe
  leaves it) never fails: it returns 0. Afterwards \<open>ipi_dev\<close> is null, no handler is
  registered for the device's interrupt number and the attribute file is gone, so that a
  following probe of the same device, with the kernel services answering well, succeeds.
\<close>

theorem remove_always_succeeds:
  assumes "platform_get_drvdata pdev st = Some data"
  shows "\<exists>st'. user_sgi_remove pdev st = Inr (0, st')
     \<and> ipi_dev st' = None
     \<and> ipi_handlers st' (ipi_number data) = None
     \<and> (dev pdev, ''count'') \<notin> sysfs_files st'
     \<and> (devm_kzalloc_ok k \<and> device_create_file_ret k = 0
          \<and> of_node pdev ''ipi_number'' = Some (Prop_cells [ipi_number data])
        \<longrightarrow> (\<exists>st''. user_sgi_probe k pdev st' = Inr (0, st'')))"
  using assms
  by (simp add: drv_defs prim_defs Let_def)

theorem remove_always_succeeds_witness:
  "user_sgi_probe outcomes_ok sgi8_first boot_state = Inr (0, active_state)
   \<and> platform_get_drvdata sgi8_first active_state = Some \<lparr>ipi_number = 8\<rparr>
   \<and> (\<exists>st'. user_sgi_remove sgi8_first active_state = Inr (0, st')
     \<and> ipi_dev st' = None
     \<and> ipi_handlers st' 8 = None
     \<and> (1, ''count'') \<notin> sysfs_files st'
     \<and> (\<exists>st''. user_sgi_probe outcomes_ok sgi8_first st' = Inr (0, st'')))"
proof -
  have h: "platform_get_drvdata sgi8_first active_state = Some \<lparr>ipi_number = 8\<rparr>"
    by (rule active_drvdata)
  have k: "devm_kzalloc_ok outcomes_ok \<and> device_create_file_ret outcomes_ok = 0
     \<and> of_node sgi8_first ''ipi_number'' = Some (Prop_cells [ipi_number \<lparr>ipi_number = 8\<rparr>])"
    by (simp add: outcomes_ok_def sgi8_first_def)
  from remove_always_succeeds [OF h, of outcomes_ok] k h probe_boot_active show ?thesis
    by (auto simp: sgi8_first_def)
qed

section \<open>The interrupt handler: what one invocation does\<close>

text \<open>
  C5. An invocation of the handler first stores the incremented counter, then loads
  \<open>ipi_dev\<close>, and then notifies the attribute \<open>count\<close> of the loaded device exactly when
  the loaded pointer is not null; with a null pointer it does nothing more. Nothing else
  of the state changes, and the handler returns in either case: it has no error result.
\<close>

theorem handle_ipi_steps:
  "handle_ipi st =
     st\<lparr>ipi_count := ipi_count st + 1,
        events := events st @
          [Store_ipi_count (ipi_count st + 1), Load_ipi_dev (ipi_dev st)] @
          (case ipi_dev st of None \<Rightarrow> [] | Some d \<Rightarrow> [Sysfs_notify d ''count''])\<rparr>"
  by (simp add: handle_ipi_def prim_defs Let_def split: option.split)

text \<open>
  C9. Claimed: every invocation increments the counter whatever the device pointer is, so
  that an invocation that finds \<open>ipi_dev\<close> null has already advanced the counter by 1. The
  store does come before the load of the pointer and does not depend on it, but the store
  of an invocation that another one overlaps need not advance the counter. Here the first
  device is in the middle of its removal, \<open>ipi_dev\<close> is null and the handler is still
  registered. Two cores run the handler: both load 0, core 0 stores 1, and then the store
  of core 1 leaves the counter at 1. Both invocations find the null pointer and send no
  notification; two invocations have advanced the counter by 1.
\<close>

theorem handle_ipi_null_device_lost_increment:
  "ipi_dev teardown_state = None
   \<and> ipi_handlers teardown_state 8 = Some Handle_ipi
   \<and> ipi_count teardown_state = 0
   \<and> fst (run_schedule [0, 1, 0] ([At_load_count, At_load_count], teardown_state))
       = [At_load_dev, At_store_count 0]
   \<and> ipi_count (snd (run_schedule [0, 1, 0] ([At_load_count, At_load_count], teardown_state)))
       = 1
   \<and> fst (run_schedule [0, 1, 0, 1] ([At_load_count, At_load_count], teardown_state))
       = [At_load_dev, At_load_dev]
   \<and> ipi_count (snd (run_schedule [0, 1, 0, 1] ([At_load_count, At_load_count], teardown_state)))
       = 1
   \<and> fst (run_schedule [0, 1, 0, 1, 1, 1, 0, 0] ([At_load_count, At_load_count], teardown_state))
       = [Returned, Returned]
   \<and> ipi_count
       (snd (run_schedule [0, 1, 0, 1, 1, 1, 0, 0] ([At_load_count, At_load_count], teardown_state)))
       = 1
   \<and> events
       (snd (run_schedule [0, 1, 0, 1, 1, 1, 0, 0] ([At_load_count, At_load_count], teardown_state)))
       = events teardown_state @
           [Store_ipi_count 1, Store_ipi_count 1, Load_ipi_dev None, Load_ipi_dev None]"
  by (simp add: prim_defs teardown_state_def active_state_def sgi8_first_def)

section \<open>The count attribute: what a read shows\<close>

text \<open>
  C2. Claimed: a read of \<open>count\<close> shows the unsigned decimal value of the counter for
  every value, also at and above \<open>2 ^ 31\<close>. The code formats the unsigned counter with
  \<^verbatim>\<open>%d\<close>, the signed conversion: at \<open>2 ^ 31 = 2147483648\<close> the read shows
  \<open>-2147483648\<close>, and at \<open>2 ^ 32 - 1\<close> it shows \<open>-1\<close>.
\<close>

theorem count_show_negative_above_msb:
  "count_show 4096 (st\<lparr>ipi_count := 0x80000000\<rparr>) = (''-2147483648'', 11)
   \<and> count_show 4096 (st\<lparr>ipi_count := 0xFFFFFFFF\<rparr>) = (''-1'', 2)"
  by (simp add: count_show_def snprintf_d_def format_d_def dec_digits.simps)

section \<open>The counter under concurrent invocations\<close>

text \<open>
  C3. Claimed: after \<open>N\<close> invocations of the handler in any interleaving, the counter is
  the initial value plus \<open>N\<close> modulo \<open>2 ^ 32\<close>, the increment being atomic. The code
  increments with a plain load followed by a release store. Here two cores run the handler
  at the same time on a freshly booted kernel and take their steps in turn: both load 0,
  both store 1. Both invocations have returned and the counter is 1, not 2.
\<close>

theorem handle_ipi_lost_update:
  "fst (run_schedule [0, 1, 0, 1, 0, 1, 0, 1] ([At_load_count, At_load_count], boot_state))
     = [Returned, Returned]
   \<and> ipi_count
       (snd (run_schedule [0, 1, 0, 1, 0, 1, 0, 1] ([At_load_count, At_load_count], boot_state)))
     = 1"
  by (simp add: prim_defs boot_state_def static_init_def)

section \<open>The counter\<close>

text \<open>
  C7. Claimed: the counter is an unsigned 32-bit variable that starts at 0, and each
  increment adds exactly 1 modulo \<open>2 ^ 32\<close>. The variable does start at 0 and an
  invocation that runs alone adds 1, with wrap-around. An increment that other invocations
  overlap does not: here the first device is active and four cores run the handler. Core 0
  loads 0; cores 1, 2 and 3 then run their invocations to the end, one after the other, and
  the counter is 3; then core 0 stores 1. Its increment has taken the counter from 3 to 1.
\<close>

theorem handle_ipi_increment_lowers_counter:
  "ipi_handlers active_state 8 = Some Handle_ipi
   \<and> ipi_count active_state = 0
   \<and> fst (run_schedule [0, 1, 1, 1, 1, 2, 2, 2, 2, 3, 3, 3, 3]
            ([At_load_count, At_load_count, At_load_count, At_load_count], active_state))
       = [At_store_count 0, Returned, Returned, Returned]
   \<and> ipi_count
       (snd (run_schedule [0, 1, 1, 1, 1, 2, 2, 2, 2, 3, 3, 3, 3]
              ([At_load_count, At_load_count, At_load_count, At_load_count], active_state)))
       = 3
   \<and> fst (run_schedule [0, 1, 1, 1, 1, 2, 2, 2, 2, 3, 3, 3, 3, 0]
            ([At_load_count, At_load_count, At_load_count, At_load_count], active_state))
       = [At_load_dev, Returned, Returned, Returned]
   \<and> ipi_count
       (snd (run_schedule [0, 1, 1, 1, 1, 2, 2, 2, 2, 3, 3, 3, 3, 0]
              ([At_load_count, At_load_count, At_load_count, At_load_count], active_state)))
       = 1"
  by (simp add: prim_defs active_state_def)

end
